theory Spec2Isabelle
  imports Main "HOL-Library.Sublist"
begin

section \<open>A shallow embedding of newznab\_mock.py\<close>

text \<open>
  The server keeps one process-wide dictionary \<^verbatim>\<open>config\<close>, filled once by
  \<^verbatim>\<open>main\<close> and only read by the request handlers. The handlers are modelled as
  functions of that configuration, of the query parameters of the request
  (\<^verbatim>\<open>request.args\<close>) and of the parts of the platform they call: the MD5 digest of
  \<^verbatim>\<open>hashlib\<close>, the clock, and the file system.

  Python strings are modelled as \<^typ>\<open>string\<close>. The character classes below are
  those of ASCII: a character outside ASCII has no lower-case form and is not white
  space in this model.

  A document is the element tree the handler hands to \<^verbatim>\<open>etree.tostring\<close>; the
  serialisation itself (escaping, namespace prefixes, pretty printing) is not modelled.
  An exception that no handler catches is a result of its own (\<open>Inl\<close>): what the web
  framework then sends is outside the module.
\<close>

subsection \<open>Python built-ins used by the handlers\<close>

datatype exn = ValueError

text \<open>\<^verbatim>\<open>str.isspace\<close>, as \<^verbatim>\<open>str.split()\<close> and \<^verbatim>\<open>int()\<close> use it: tab, line feed,
  vertical tab, form feed, carriage return, the separators 0x1c to 0x1f, and space.\<close>

definition py_isspace :: "char \<Rightarrow> bool" where
  "py_isspace c \<longleftrightarrow> (of_char c :: nat) \<in> {9, 10, 11, 12, 13, 28, 29, 30, 31, 32}"

definition py_lower_char :: "char \<Rightarrow> char" where
  "py_lower_char c =
     (case map_of (zip ''ABCDEFGHIJKLMNOPQRSTUVWXYZ'' ''abcdefghijklmnopqrstuvwxyz'') c of
        Some l \<Rightarrow> l
      | None \<Rightarrow> c)"

text \<open>\<^verbatim>\<open>s.lower()\<close>\<close>

definition py_lower :: "string \<Rightarrow> string" where
  "py_lower s = map py_lower_char s"

text \<open>\<^verbatim>\<open>s.split()\<close>: the maximal runs of characters that are not white space, in order.
  \<open>cur\<close> is the run being read.\<close>

fun py_split_from :: "string \<Rightarrow> string \<Rightarrow> string list" where
  "py_split_from cur [] = (if cur = [] then [] else [cur])"
| "py_split_from cur (c # cs) =
     (if py_isspace c
      then (if cur = [] then py_split_from [] cs else cur # py_split_from [] cs)
      else py_split_from (cur @ [c]) cs)"

definition py_split :: "string \<Rightarrow> string list" where
  "py_split s = py_split_from [] s"

text \<open>\<^verbatim>\<open>s.split(sep)\<close> for a one-character separator: every separator ends a field,
  empty fields are kept, and the empty string gives one empty field.\<close>

fun py_split_sep_from :: "char \<Rightarrow> string \<Rightarrow> string \<Rightarrow> string list" where
  "py_split_sep_from sep cur [] = [cur]"
| "py_split_sep_from sep cur (c # cs) =
     (if c = sep then cur # py_split_sep_from sep [] cs
      else py_split_sep_from sep (cur @ [c]) cs)"

definition py_split_sep :: "char \<Rightarrow> string \<Rightarrow> string list" where
  "py_split_sep sep s = py_split_sep_from sep [] s"

text \<open>\<^verbatim>\<open>sub in s\<close> for strings: \<open>sub\<close> occurs in \<open>s\<close> as a contiguous run.\<close>

fun py_startswith :: "string \<Rightarrow> string \<Rightarrow> bool" where
  "py_startswith s [] = True"
| "py_startswith [] (p # ps) = False"
| "py_startswith (c # cs) (p # ps) = (c = p \<and> py_startswith cs ps)"

fun py_in_str :: "string \<Rightarrow> string \<Rightarrow> bool" where
  "py_in_str sub [] = (sub = [])"
| "py_in_str sub (c # cs) = (py_startswith (c # cs) sub \<or> py_in_str sub cs)"

text \<open>\<^verbatim>\<open>s.replace(old, new)\<close> for a non-empty \<open>old\<close>: the occurrences are replaced from
  the left, without overlap. \<open>k\<close> counts the characters of a matched occurrence still to
  be skipped.\<close>

fun py_replace_from :: "nat \<Rightarrow> string \<Rightarrow> string \<Rightarrow> string \<Rightarrow> string" where
  "py_replace_from k old new [] = []"
| "py_replace_from (Suc k) old new (c # cs) = py_replace_from k old new cs"
| "py_replace_from 0 old new (c # cs) =
     (if py_startswith (c # cs) old
      then new @ py_replace_from (length old - 1) old new cs
      else c # py_replace_from 0 old new cs)"

definition py_replace :: "string \<Rightarrow> string \<Rightarrow> string \<Rightarrow> string" where
  "py_replace s old new = py_replace_from 0 old new s"

text \<open>The white space \<^verbatim>\<open>int()\<close> drops around an ASCII literal: tab, line feed,
  vertical tab, form feed, carriage return and space (the separators 0x1c to 0x1f are
  not dropped, and make the literal invalid).\<close>

definition int_isspace :: "char \<Rightarrow> bool" where
  "int_isspace c \<longleftrightarrow> (of_char c :: nat) \<in> {9, 10, 11, 12, 13, 32}"

definition int_strip :: "string \<Rightarrow> string" where
  "int_strip s = rev (dropWhile int_isspace (rev (dropWhile int_isspace s)))"

definition is_digit :: "char \<Rightarrow> bool" where
  "is_digit c \<longleftrightarrow> c \<in> set ''0123456789''"

definition digit_val :: "char \<Rightarrow> nat" where
  "digit_val c = length (takeWhile (\<lambda>d. d \<noteq> c) ''0123456789'')"

text \<open>The digits of a decimal literal after its first digit: digits, with single
  underscores allowed between two digits. \<open>acc\<close> is the value read so far.\<close>

fun py_int_digits :: "nat \<Rightarrow> string \<Rightarrow> nat option" where
  "py_int_digits acc [] = Some acc"
| "py_int_digits acc [c] = (if is_digit c then Some (10 * acc + digit_val c) else None)"
| "py_int_digits acc (c # d # cs) =
     (if is_digit c then py_int_digits (10 * acc + digit_val c) (d # cs)
      else if c = CHR ''_'' \<and> is_digit d then py_int_digits acc (d # cs)
      else None)"

definition py_int_unsigned :: "string \<Rightarrow> nat option" where
  "py_int_unsigned s =
     (case s of
        [] \<Rightarrow> None
      | c # cs \<Rightarrow> if is_digit c then py_int_digits (digit_val c) cs else None)"

text \<open>\<^verbatim>\<open>int(s)\<close> for a string, base 10: white space around the literal is dropped, one
  sign may come first. \<open>None\<close> is the \<^verbatim>\<open>ValueError\<close> Python raises.\<close>

definition py_int :: "string \<Rightarrow> int option" where
  "py_int s =
     (case int_strip s of
        [] \<Rightarrow> None
      | c # cs \<Rightarrow>
          if c = CHR ''-'' then map_option (\<lambda>n. - int n) (py_int_unsigned cs)
          else if c = CHR ''+'' then map_option int (py_int_unsigned cs)
          else map_option int (py_int_unsigned (c # cs)))"

fun nat_digits :: "nat \<Rightarrow> string" where
  "nat_digits n =
     (if n < 10 then [''0123456789'' ! n]
      else nat_digits (n div 10) @ [''0123456789'' ! (n mod 10)])"

declare nat_digits.simps [simp del]

text \<open>\<^verbatim>\<open>str(n)\<close> for an integer\<close>

definition py_str :: "int \<Rightarrow> string" where
  "py_str n = (if n < 0 then CHR ''-'' # nat_digits (nat (- n)) else nat_digits (nat n))"

text \<open>\<^verbatim>\<open>divmod(a, b)\<close> for integers and a positive \<open>b\<close>: floor division and its
  remainder, which is what \<open>div\<close> and \<open>mod\<close> are on \<^typ>\<open>int\<close>.\<close>

definition py_divmod :: "int \<Rightarrow> int \<Rightarrow> int \<times> int" where
  "py_divmod a b = (a div b, a mod b)"

text \<open>\<^verbatim>\<open>xs[start:stop]\<close>: a negative index counts from the end, and both are clamped
  to the list.\<close>

definition py_slice :: "'a list \<Rightarrow> int \<Rightarrow> int \<Rightarrow> 'a list" where
  "py_slice xs start stop =
     (let n = int (length xs);
          lo = (if start < 0 then max 0 (start + n) else min start n);
          hi = (if stop < 0 then max 0 (stop + n) else min stop n)
      in take (nat (hi - lo)) (drop (nat lo) xs))"

text \<open>\<^verbatim>\<open>os.path.join(a, b)\<close> on POSIX\<close>

definition os_path_join :: "string \<Rightarrow> string \<Rightarrow> string" where
  "os_path_join a b =
     (if py_startswith b ''/'' then b
      else if a = [] \<or> last a = CHR ''/'' then a @ b
      else a @ ''/'' @ b)"

subsection \<open>The catalog, the configuration and the platform\<close>

text \<open>An entry of the catalog is a JSON object. A field is \<open>None\<close> when the object has
  no such key; \<^verbatim>\<open>categories\<close> holds a list of category ids or a single id. The values
  have the types of the catalog's data model: titles, file names, groups and category
  ids are strings, the size is an integer.\<close>

datatype categories_field = CatList "string list" | CatScalar string

record nzb_item =
  item_title :: "string option"
  item_filename :: "string option"
  item_categories :: "categories_field option"
  item_size :: "int option"
  item_group :: "string option"

record config =
  api_key :: string
  nzb_path :: string
  nzbs_data :: "nzb_item list"
  external_url :: string
  categories :: "string \<rightharpoonup> string"

text \<open>What the handlers call outside the program: \<^verbatim>\<open>hashlib.md5(s.encode('utf-8')).hexdigest()\<close>,
  the formatted \<^verbatim>\<open>datetime.now()\<close>, \<^verbatim>\<open>os.path.isfile\<close>, reading a file (\<open>Inl\<close> the
  text of the exception raised, \<open>Inr\<close> the content), and \<^verbatim>\<open>send_file\<close> (\<open>Some\<close> the
  text of the exception it raises, if any).\<close>

record platform =
  md5_hexdigest :: "string \<Rightarrow> string"
  now_strftime :: string
  os_path_isfile :: "string \<Rightarrow> bool"
  open_read :: "string \<Rightarrow> string + string"
  send_file :: "string \<Rightarrow> string option"

text \<open>\<^verbatim>\<open>request.args\<close>\<close>

type_synonym args = "string \<rightharpoonup> string"

text \<open>An element built with \<^verbatim>\<open>lxml.etree\<close>: tag, attributes, text, children.\<close>

datatype xml = Element string "(string \<times> string) list" string "xml list"

text \<open>What a handler returns: an XML document, or the file \<^verbatim>\<open>send_file\<close> serves (path,
  download name, media type).\<close>

datatype response = XmlResponse xml | SendFile string string string

text \<open>\<^verbatim>\<open>d.get(key, default)\<close>, on the looked-up field\<close>

definition get_or :: "'a option \<Rightarrow> 'a \<Rightarrow> 'a" where
  "get_or field dflt = (case field of None \<Rightarrow> dflt | Some v \<Rightarrow> v)"

text \<open>\<^verbatim>\<open>not s\<close> for a value that is \<^verbatim>\<open>None\<close> or a string\<close>

definition py_not :: "string option \<Rightarrow> bool" where
  "py_not v \<longleftrightarrow> v = None \<or> v = Some []"

text \<open>\<^verbatim>\<open>item.get('categories', [])\<close>, made a list when it is a single value\<close>

definition categories_list :: "nzb_item \<Rightarrow> string list" where
  "categories_list item =
     (case item_categories item of
        None \<Rightarrow> []
      | Some (CatList cs) \<Rightarrow> cs
      | Some (CatScalar c) \<Rightarrow> [c])"

subsection \<open>The functions of the module\<close>

definition get_category_name :: "config \<Rightarrow> string \<Rightarrow> string" where
  "get_category_name cfg category_id =
     (case categories cfg category_id of
        Some name \<Rightarrow> name
      | None \<Rightarrow> ''Category '' @ category_id)"

text \<open>The comprehension of \<^verbatim>\<open>get_named_categories\<close>: the parent of every id that is not
  a multiple of 1000. \<^verbatim>\<open>int(i)\<close> raises on an id that is no integer literal.\<close>

fun child_parents :: "string list \<Rightarrow> exn + string list" where
  "child_parents [] = Inr []"
| "child_parents (i # rest) =
     (case py_int i of
        None \<Rightarrow> Inl ValueError
      | Some v \<Rightarrow>
          (case child_parents rest of
             Inl e \<Rightarrow> Inl e
           | Inr ps \<Rightarrow>
               Inr (if snd (py_divmod v 1000) > 0
                    then py_str (1000 * fst (py_divmod v 1000)) # ps
                    else ps)))"

definition get_named_categories :: "config \<Rightarrow> string list \<Rightarrow> exn + string list" where
  "get_named_categories cfg cats =
     (case child_parents cats of
        Inl e \<Rightarrow> Inl e
      | Inr ps \<Rightarrow> Inr (map (get_category_name cfg) (filter (\<lambda>category. category \<notin> set ps) cats)))"

definition verify_api_key :: "config \<Rightarrow> args \<Rightarrow> bool" where
  "verify_api_key cfg a =
     (let key = a ''apikey''
      in if py_not key \<or> key \<noteq> Some (api_key cfg) then False else True)"

definition error_response :: "int \<Rightarrow> string \<Rightarrow> response" where
  "error_response code message =
     XmlResponse (Element ''error'' [(''code'', py_str code), (''description'', message)] [] [])"

definition get_guid_from_filename :: "platform \<Rightarrow> string \<Rightarrow> string" where
  "get_guid_from_filename pf fname = md5_hexdigest pf fname"

definition newznab_ns :: string where
  "newznab_ns = ''http://www.newznab.com/DTD/2010/feeds/attributes/''"

definition build_item_xml :: "platform \<Rightarrow> config \<Rightarrow> nzb_item \<Rightarrow> exn + xml" where
  "build_item_xml pf cfg item =
     (let current_time = now_strftime pf;
          cats = categories_list item;
          fname = get_or (item_filename item) [];
          guid = get_guid_from_filename pf fname;
          details = external_url cfg @ ''/details/'' @ guid;
          url = external_url cfg @ ''/api?t=get&id='' @ guid @ ''&apikey='' @ api_key cfg;
          attr = ''{'' @ newznab_ns @ ''}attr''
      in case get_named_categories cfg cats of
           Inl e \<Rightarrow> Inl e
         | Inr named \<Rightarrow>
             Inr (Element ''item'' [] []
               ([Element ''title'' [] (get_or (item_title item) ''Unknown'') [],
                 Element ''guid'' [(''isPermaLink'', ''true'')] details [],
                 Element ''link'' [] url [],
                 Element ''comments'' [] details [],
                 Element ''pubDate'' [] current_time []]
                @ map (\<lambda>category. Element ''category'' [] category []) named
                @ [Element ''enclosure''
                     [(''url'', url),
                      (''length'', py_str (get_or (item_size item) 0)),
                      (''type'', ''application/x-nzb'')] [] []]
                @ map (\<lambda>category. Element attr [(''name'', ''category''), (''value'', category)] [] []) cats
                @ [Element attr [(''name'', ''size''), (''value'', py_str (get_or (item_size item) 0))] [] [],
                   Element attr [(''name'', ''guid''), (''value'', guid)] [] [],
                   Element attr [(''name'', ''group''),
                                 (''value'', get_or (item_group item) ''alt.binaries'')] [] []])))"

text \<open>The loop over \<^verbatim>\<open>paginated_results\<close>: the first exception ends it.\<close>

fun build_items :: "platform \<Rightarrow> config \<Rightarrow> nzb_item list \<Rightarrow> exn + xml list" where
  "build_items pf cfg [] = Inr []"
| "build_items pf cfg (item # rest) =
     (case build_item_xml pf cfg item of
        Inl e \<Rightarrow> Inl e
      | Inr x \<Rightarrow>
          (case build_items pf cfg rest of
             Inl e \<Rightarrow> Inl e
           | Inr xs \<Rightarrow> Inr (x # xs)))"

text \<open>\<^verbatim>\<open>re.sub(r'[,.!?;:"\'-]', ' ', query)\<close>\<close>

definition punctuation :: "char list" where
  "punctuation = '',.!?;:-'' @ [CHR 0x22, CHR 0x27]"

definition clean_query :: "string \<Rightarrow> string" where
  "clean_query query = map (\<lambda>c. if c \<in> set punctuation then CHR '' '' else c) query"

definition query_terms :: "string \<Rightarrow> string list" where
  "query_terms query =
     (if query = [] then []
      else map py_lower (filter (\<lambda>term. term \<noteq> []) (py_split (clean_query query))))"

text \<open>The body of the loop over the catalog in \<^verbatim>\<open>handle_search\<close>: the value of
  \<^verbatim>\<open>match\<close> after both tests.\<close>

definition item_matches :: "string list \<Rightarrow> string \<Rightarrow> nzb_item \<Rightarrow> bool" where
  "item_matches terms cat item =
     (let match1 =
            (if terms \<noteq> []
             then (let title = py_lower (get_or (item_title item) [])
                   in if \<not> list_all (\<lambda>term. py_in_str term title) terms then False else True)
             else True);
          match2 =
            (if cat \<noteq> []
             then (let cat_list = py_split_sep CHR '','' cat;
                       item_cats = categories_list item
                   in if \<not> list_ex (\<lambda>c. c \<in> set cat_list) item_cats then False else match1)
             else match1)
      in match2)"

definition search_results :: "config \<Rightarrow> string \<Rightarrow> string \<Rightarrow> nzb_item list" where
  "search_results cfg query cat = filter (item_matches (query_terms query) cat) (nzbs_data cfg)"

text \<open>The document of \<^verbatim>\<open>handle_search\<close>, for the offset, the number of matches and
  the rendered items.\<close>

definition search_document :: "config \<Rightarrow> int \<Rightarrow> nat \<Rightarrow> xml list \<Rightarrow> xml" where
  "search_document cfg offset n_results items =
     Element ''rss'' [(''version'', ''2.0'')] []
       [Element ''channel'' [] []
          ([Element ''title'' [] ''Newznab Mock'' [],
            Element ''description'' [] ''Newznab Mock API Results'' [],
            Element ''link'' [] (external_url cfg) [],
            Element ''language'' [] ''en-gb'' [],
            Element ''webMaster'' []
              (''admin@'' @ py_replace (py_replace (external_url cfg) ''http://'' []) ''https://'' []) [],
            Element ''category'' [] ''NZB'' [],
            Element ''{http://www.w3.org/2005/Atom}link''
              [(''href'', external_url cfg @ ''/api''), (''rel'', ''self''),
               (''type'', ''application/rss+xml'')] [] [],
            Element (''{'' @ newznab_ns @ ''}response'')
              [(''offset'', py_str offset), (''total'', py_str (int n_results))] [] []]
           @ items)]"

text \<open>\<^verbatim>\<open>int(request.args.get(name, default))\<close>\<close>

definition int_arg :: "args \<Rightarrow> string \<Rightarrow> int \<Rightarrow> int option" where
  "int_arg a name dflt = (case a name of None \<Rightarrow> Some dflt | Some s \<Rightarrow> py_int s)"

definition handle_search :: "platform \<Rightarrow> config \<Rightarrow> args \<Rightarrow> exn + response" where
  "handle_search pf cfg a =
     (let query = get_or (a ''q'') [];
          cat = get_or (a ''cat'') []
      in case int_arg a ''limit'' 100 of
           None \<Rightarrow> Inl ValueError
         | Some limit \<Rightarrow>
             (case int_arg a ''offset'' 0 of
                None \<Rightarrow> Inl ValueError
              | Some offset \<Rightarrow>
                  (let results = search_results cfg query cat;
                       paginated_results = py_slice results offset (offset + limit)
                   in case build_items pf cfg paginated_results of
                        Inl e \<Rightarrow> Inl e
                      | Inr items \<Rightarrow>
                          Inr (XmlResponse (search_document cfg offset (length results) items)))))"

text \<open>The loop of \<^verbatim>\<open>handle_get\<close>: the file name of the first entry whose identifier
  is \<open>nzb_id\<close>, \<open>None\<close> when the loop ends without one.\<close>

fun find_nzb_filename :: "platform \<Rightarrow> nzb_item list \<Rightarrow> string \<Rightarrow> string option" where
  "find_nzb_filename pf [] nzb_id = None"
| "find_nzb_filename pf (item # rest) nzb_id =
     (let fname = get_or (item_filename item) []
      in if get_guid_from_filename pf fname = nzb_id then Some fname
         else find_nzb_filename pf rest nzb_id)"

definition handle_get :: "platform \<Rightarrow> config \<Rightarrow> args \<Rightarrow> response" where
  "handle_get pf cfg a =
     (let nzb_id = get_or (a ''id'') []
      in if nzb_id = [] then error_response 200 ''No NZB ID specified''
         else
           (let nzb_filename = find_nzb_filename pf (nzbs_data cfg) nzb_id
            in case nzb_filename of
                 None \<Rightarrow> error_response 300 (''NZB with ID '' @ nzb_id @ '' not found'')
               | Some fname \<Rightarrow>
                   if py_not nzb_filename
                   then error_response 300 (''NZB with ID '' @ nzb_id @ '' not found'')
                   else
                     (let path = os_path_join (nzb_path cfg) fname
                      in if \<not> os_path_isfile pf path
                         then error_response 300 (''NZB file '' @ fname @ '' not found on disk'')
                         else
                           (case open_read pf path of
                              Inl e \<Rightarrow> error_response 900 (''Error reading NZB file: '' @ e)
                            | Inr nzb_content \<Rightarrow>
                                (case send_file pf path of
                                   Some e \<Rightarrow> error_response 900 (''Error reading NZB file: '' @ e)
                                 | None \<Rightarrow> SendFile path fname ''application/x-nzb'')))))"

text \<open>The view function of \<^verbatim>\<open>/api\<close>. \<open>Inl\<close> is an exception that leaves it uncaught.\<close>

definition api :: "platform \<Rightarrow> config \<Rightarrow> args \<Rightarrow> exn + response" where
  "api pf cfg a =
     (if \<not> verify_api_key cfg a then Inr (error_response 100 ''Invalid API key'')
      else
        (let t = get_or (a ''t'') []
         in if t = ''search'' \<or> t = ''tvsearch'' \<or> t = ''movie'' then handle_search pf cfg a
            else if t = ''get'' then Inr (handle_get pf cfg a)
            else Inr (error_response 203 (''Function not available: '' @ t))))"

subsection \<open>An example installation\<close>

text \<open>The digests \<^verbatim>\<open>hashlib\<close> computes for the strings the examples hash: the empty
  string and three file names. The examples hash no other string.\<close>

definition example_md5 :: "string \<Rightarrow> string" where
  "example_md5 s =
     get_or (map_of
       [([], ''d41d8cd98f00b204e9800998ecf8427e''),
        (''ubuntu-desktop.nzb'', ''a69f8063f54fe02db3468a161ef5b2c9''),
        (''big.buck.bunny.nzb'', ''f57d2be9e8aed67f33c66116b8e55271''),
        (''sintel.nzb'', ''3b3dfcd38eece6147afc684ed720d049'')] s) []"

text \<open>A platform whose directory holds two of the three files; one of the two cannot be
  read.\<close>

definition example_platform :: platform where
  "example_platform =
     \<lparr>md5_hexdigest = example_md5,
      now_strftime = ''Wed, 04 Nov 2026 12:00:00 '',
      os_path_isfile = (\<lambda>p. p \<in> {''/srv/nzb/ubuntu-desktop.nzb'', ''/srv/nzb/sintel.nzb''}),
      open_read = (\<lambda>p. if p = ''/srv/nzb/ubuntu-desktop.nzb'' then Inr ''<nzb/>''
                        else Inl ''[Errno 13] Permission denied''),
      send_file = (\<lambda>p. None)\<rparr>"

definition ubuntu :: nzb_item where
  "ubuntu =
     \<lparr>item_title = Some ''Ubuntu 24.04 Desktop'',
      item_filename = Some ''ubuntu-desktop.nzb'',
      item_categories = Some (CatList [''4000'', ''4020'']),
      item_size = Some 6114656256,
      item_group = None\<rparr>"

definition bunny :: nzb_item where
  "bunny =
     \<lparr>item_title = Some ''Big.Buck.Bunny.2008.1080p'',
      item_filename = Some ''big.buck.bunny.nzb'',
      item_categories = Some (CatScalar ''2040''),
      item_size = Some 928670754,
      item_group = Some ''alt.binaries.movies''\<rparr>"

definition sintel :: nzb_item where
  "sintel =
     \<lparr>item_title = Some ''Sintel 2010 buck'',
      item_filename = Some ''sintel.nzb'',
      item_categories = Some (CatList [''2000'']),
      item_size = None,
      item_group = None\<rparr>"

text \<open>An entry without a file name.\<close>

definition nameless :: nzb_item where
  "nameless =
     \<lparr>item_title = Some ''No file'',
      item_filename = None,
      item_categories = None,
      item_size = None,
      item_group = None\<rparr>"

text \<open>Ten entries that differ in the digit \<open>n\<close>, for a catalog of ten matches.\<close>

definition episode :: "string \<Rightarrow> nzb_item" where
  "episode n =
     \<lparr>item_title = Some (''Show S01E0'' @ n),
      item_filename = Some (''show.s01e0'' @ n @ ''.nzb''),
      item_categories = Some (CatList [''5000'', ''5040'']),
      item_size = Some 734003200,
      item_group = None\<rparr>"

definition example_categories :: "string \<rightharpoonup> string" where
  "example_categories =
     map_of [(''2000'', ''Movies''), (''2040'', ''Movies/HD''), (''4000'', ''PC'')]"

definition example_config :: config where
  "example_config =
     \<lparr>api_key = ''mock_api_key'',
      nzb_path = ''/srv/nzb'',
      nzbs_data = [ubuntu, bunny, sintel],
      external_url = ''http://localhost:5000'',
      categories = example_categories\<rparr>"

definition episodes :: config where
  "episodes =
     example_config\<lparr>nzbs_data :=
       map (\<lambda>n. episode [n]) ''0123456789''\<rparr>"

section \<open>Properties\<close>

lemma py_str_100: "py_str 100 = ''100''"
  by (simp add: py_str_def nat_digits.simps)

lemma py_str_203: "py_str 203 = ''203''"
  by (simp add: py_str_def nat_digits.simps)

lemma py_str_200: "py_str 200 = ''200''"
  by (simp add: py_str_def nat_digits.simps)

lemma py_str_300: "py_str 300 = ''300''"
  by (simp add: py_str_def nat_digits.simps)

lemma py_str_900: "py_str 900 = ''900''"
  by (simp add: py_str_def nat_digits.simps)

lemma verify_api_key_iff:
  "verify_api_key cfg a \<longleftrightarrow> a ''apikey'' = Some (api_key cfg) \<and> api_key cfg \<noteq> []"
  by (auto simp: verify_api_key_def py_not_def Let_def)

subsection \<open>The key gate\<close>

text \<open>
  Claim C5. A request whose \<^verbatim>\<open>apikey\<close> parameter is absent, or is not the configured
  key, is answered with the error document of code 100 and description
  \<^verbatim>\<open>Invalid API key\<close>, whatever the platform, the catalog and the other parameters
  are: no handler is reached.
\<close>

theorem api_rejects_wrong_key:
  assumes "a ''apikey'' = None \<or> a ''apikey'' \<noteq> Some (api_key cfg)"
  shows "api pf cfg a =
    Inr (XmlResponse (Element ''error''
      [(''code'', ''100''), (''description'', ''Invalid API key'')] [] []))"
proof -
  from assms have "\<not> verify_api_key cfg a"
    by (auto simp: verify_api_key_iff)
  then show ?thesis
    by (simp add: api_def error_response_def py_str_100)
qed

theorem api_rejects_wrong_key_witness:
  "api example_platform example_config [''apikey'' \<mapsto> ''wrong'', ''t'' \<mapsto> ''search''] =
    Inr (XmlResponse (Element ''error''
      [(''code'', ''100''), (''description'', ''Invalid API key'')] [] []))"
  using api_rejects_wrong_key
    [of "[''apikey'' \<mapsto> ''wrong'', ''t'' \<mapsto> ''search'']" example_config example_platform]
  by (simp add: example_config_def)

text \<open>
  Claim C10. When the configured key is the empty string no request passes the gate:
  every request, also one whose \<^verbatim>\<open>apikey\<close> is the empty string and so equal to the
  configured key, is answered with the error document of code 100. An empty
  \<^verbatim>\<open>apikey\<close> is refused like a missing one, by the test \<^verbatim>\<open>not api_key\<close> that comes
  before the comparison.
\<close>

theorem empty_configured_key_rejects_all:
  assumes "api_key cfg = []"
  shows "api pf cfg a =
    Inr (XmlResponse (Element ''error''
      [(''code'', ''100''), (''description'', ''Invalid API key'')] [] []))"
proof -
  from assms have "\<not> verify_api_key cfg a"
    by (simp add: verify_api_key_iff)
  then show ?thesis
    by (simp add: api_def error_response_def py_str_100)
qed

theorem empty_configured_key_rejects_all_witness:
  "api_key (example_config\<lparr>api_key := []\<rparr>) = [] \<and>
   [''apikey'' \<mapsto> [], ''t'' \<mapsto> ''search''] ''apikey'' = Some (api_key (example_config\<lparr>api_key := []\<rparr>)) \<and>
   api example_platform (example_config\<lparr>api_key := []\<rparr>) [''apikey'' \<mapsto> [], ''t'' \<mapsto> ''search''] =
    Inr (XmlResponse (Element ''error''
      [(''code'', ''100''), (''description'', ''Invalid API key'')] [] []))"
  using empty_configured_key_rejects_all
    [of "example_config\<lparr>api_key := []\<rparr>" example_platform
        "[''apikey'' \<mapsto> [], ''t'' \<mapsto> ''search'']"]
  by simp

subsection \<open>Dispatch\<close>

text \<open>
  Claim C8. A request that passes the key gate and whose parameter \<^verbatim>\<open>t\<close> (the empty
  string when it is absent) is none of \<^verbatim>\<open>search\<close>, \<^verbatim>\<open>tvsearch\<close>, \<^verbatim>\<open>movie\<close> and
  \<^verbatim>\<open>get\<close> is answered with the error document of code 203 whose description is
  \<^verbatim>\<open>Function not available: \<close> followed by \<^verbatim>\<open>t\<close> itself.
\<close>

theorem api_unknown_function:
  assumes "a ''apikey'' = Some (api_key cfg)" and "api_key cfg \<noteq> []"
    and "t = get_or (a ''t'') []"
    and "t \<notin> {''search'', ''tvsearch'', ''movie'', ''get''}"
  shows "api pf cfg a =
    Inr (XmlResponse (Element ''error''
      [(''code'', ''203''), (''description'', ''Function not available: '' @ t)] [] []))"
proof -
  from assms(1,2) have "verify_api_key cfg a"
    by (simp add: verify_api_key_iff)
  with assms(3,4) show ?thesis
    by (simp add: api_def error_response_def py_str_203 Let_def)
qed

theorem api_unknown_function_witness:
  "api example_platform example_config [''apikey'' \<mapsto> ''mock_api_key'', ''t'' \<mapsto> ''foo''] =
    Inr (XmlResponse (Element ''error''
      [(''code'', ''203''), (''description'', ''Function not available: foo'')] [] []))"
  using api_unknown_function
    [of "[''apikey'' \<mapsto> ''mock_api_key'', ''t'' \<mapsto> ''foo'']" example_config
        "''foo''" example_platform]
  by (simp add: example_config_def get_or_def)

subsection \<open>Unparsable \<^verbatim>\<open>limit\<close> and \<^verbatim>\<open>offset\<close>\<close>

lemma py_int_abc: "py_int ''abc'' = None"
  by (simp add: py_int_def int_strip_def int_isspace_def py_int_unsigned_def is_digit_def)

text \<open>
  Claim C6. A search request (one that passes the key gate, with \<^verbatim>\<open>t\<close> one of
  \<^verbatim>\<open>search\<close>, \<^verbatim>\<open>tvsearch\<close>, \<^verbatim>\<open>movie\<close>) whose \<^verbatim>\<open>limit\<close> or \<^verbatim>\<open>offset\<close> is present
  and is not an integer literal fails: no default is put in its place. The failure is
  the \<^verbatim>\<open>ValueError\<close> of \<^verbatim>\<open>int()\<close>, which nothing in the module catches, so it leaves
  the view function; no error document is built.
\<close>

theorem non_numeric_limit_or_offset_raises:
  assumes "a ''apikey'' = Some (api_key cfg)" and "api_key cfg \<noteq> []"
    and "a ''t'' = Some t" and "t \<in> {''search'', ''tvsearch'', ''movie''}"
    and "(\<exists>s. a ''limit'' = Some s \<and> py_int s = None) \<or>
         (\<exists>s. a ''offset'' = Some s \<and> py_int s = None)"
  shows "api pf cfg a = Inl ValueError"
proof -
  from assms(1,2) have "verify_api_key cfg a"
    by (simp add: verify_api_key_iff)
  moreover from assms(5) have "handle_search pf cfg a = Inl ValueError"
    by (auto simp: handle_search_def int_arg_def Let_def split: option.splits)
  ultimately show ?thesis
    using assms(3,4) by (auto simp: api_def get_or_def)
qed

theorem non_numeric_limit_or_offset_raises_witness:
  "py_int ''abc'' = None \<and>
   api example_platform example_config
     [''apikey'' \<mapsto> ''mock_api_key'', ''t'' \<mapsto> ''tvsearch'', ''offset'' \<mapsto> ''abc''] =
   Inl ValueError"
  using non_numeric_limit_or_offset_raises
    [of "[''apikey'' \<mapsto> ''mock_api_key'', ''t'' \<mapsto> ''tvsearch'', ''offset'' \<mapsto> ''abc'']"
        example_config "''tvsearch''" example_platform]
  by (simp add: example_config_def py_int_abc)

text \<open>The request \<^verbatim>\<open>t=search&limit=abc\<close> is not answered with an error document of any
  code.\<close>

theorem non_numeric_limit_counterexample:
  "api example_platform example_config
     [''apikey'' \<mapsto> ''mock_api_key'', ''t'' \<mapsto> ''search'', ''limit'' \<mapsto> ''abc''] =
   Inl ValueError \<and>
   (\<forall>code message.
      api example_platform example_config
        [''apikey'' \<mapsto> ''mock_api_key'', ''t'' \<mapsto> ''search'', ''limit'' \<mapsto> ''abc''] \<noteq>
      Inr (error_response code message))"
  by (simp add: api_def verify_api_key_def py_not_def example_config_def get_or_def
      handle_search_def int_arg_def py_int_abc)

subsection \<open>Retrieval\<close>

lemma find_nzb_filename_first:
  assumes "item \<in> set catalog"
    and "\<forall>other \<in> set catalog.
           get_guid_from_filename pf (get_or (item_filename other) []) =
             get_guid_from_filename pf (get_or (item_filename item) []) \<longrightarrow>
           get_or (item_filename other) [] = get_or (item_filename item) []"
  shows "find_nzb_filename pf catalog
           (get_guid_from_filename pf (get_or (item_filename item) [])) =
         Some (get_or (item_filename item) [])"
  using assms
proof (induction catalog)
  case Nil
  then show ?case by simp
next
  case (Cons x rest)
  show ?case
  proof (cases "get_guid_from_filename pf (get_or (item_filename x) []) =
      get_guid_from_filename pf (get_or (item_filename item) [])")
    case True
    with Cons.prems(2) have "get_or (item_filename x) [] = get_or (item_filename item) []"
      by simp
    with True show ?thesis by (simp add: Let_def)
  next
    case False
    with Cons.prems(1) have "item \<in> set rest" by auto
    with Cons.IH Cons.prems(2) False show ?thesis by (simp add: Let_def)
  qed
qed

lemma find_nzb_filename_None:
  "find_nzb_filename pf catalog nzb_id = None \<longleftrightarrow>
   (\<forall>item \<in> set catalog. get_guid_from_filename pf (get_or (item_filename item) []) \<noteq> nzb_id)"
  by (induction catalog) (auto simp: Let_def)

lemma find_nzb_filename_Some:
  "find_nzb_filename pf catalog nzb_id = Some fname \<Longrightarrow>
   \<exists>item \<in> set catalog. get_or (item_filename item) [] = fname \<and>
      get_guid_from_filename pf fname = nzb_id"
  by (induction catalog) (auto simp: Let_def split: if_splits)

lemma example_lookup:
  "find_nzb_filename example_platform [ubuntu, bunny, sintel] ''a69f8063f54fe02db3468a161ef5b2c9'' =
     Some ''ubuntu-desktop.nzb''"
  "find_nzb_filename example_platform [ubuntu, bunny, sintel] ''f57d2be9e8aed67f33c66116b8e55271'' =
     Some ''big.buck.bunny.nzb''"
  "find_nzb_filename example_platform [ubuntu, bunny, sintel] ''3b3dfcd38eece6147afc684ed720d049'' =
     Some ''sintel.nzb''"
  "find_nzb_filename example_platform [ubuntu, bunny, sintel] ''0123'' = None"
  by (simp_all add: ubuntu_def bunny_def sintel_def get_or_def get_guid_from_filename_def
      example_platform_def example_md5_def)

lemma example_paths:
  "os_path_join ''/srv/nzb'' ''ubuntu-desktop.nzb'' = ''/srv/nzb/ubuntu-desktop.nzb''"
  "os_path_join ''/srv/nzb'' ''big.buck.bunny.nzb'' = ''/srv/nzb/big.buck.bunny.nzb''"
  "os_path_join ''/srv/nzb'' ''sintel.nzb'' = ''/srv/nzb/sintel.nzb''"
  by (simp_all add: os_path_join_def)

text \<open>
  Claim C1. Let an entry of the catalog have a file name that is not empty and that no
  other entry has, and let no entry with another file name have the same identifier
  (the MD5 digest is a parameter here; the hypothesis says that it does not collide on
  the catalog). Then the loop of \<^verbatim>\<open>handle_get\<close>, given the identifier of the entry's
  file name, ends with that file name, the test \<^verbatim>\<open>not nzb_filename\<close> lets it pass, and
  the entry is the only one of the catalog with that name. Identifiers are compared as
  strings, character by character.
\<close>

theorem identifier_round_trip:
  assumes unique: "filter (\<lambda>e. get_or (item_filename e) [] = get_or (item_filename item) []) catalog = [item]"
    and nonempty: "get_or (item_filename item) [] \<noteq> []"
    and no_collision: "\<forall>other \<in> set catalog.
           get_guid_from_filename pf (get_or (item_filename other) []) =
             get_guid_from_filename pf (get_or (item_filename item) []) \<longrightarrow>
           get_or (item_filename other) [] = get_or (item_filename item) []"
  shows "find_nzb_filename pf catalog (get_guid_from_filename pf (get_or (item_filename item) [])) =
           Some (get_or (item_filename item) []) \<and>
         \<not> py_not (find_nzb_filename pf catalog
           (get_guid_from_filename pf (get_or (item_filename item) []))) \<and>
         filter (\<lambda>e. Some (get_or (item_filename e) []) =
             find_nzb_filename pf catalog
               (get_guid_from_filename pf (get_or (item_filename item) []))) catalog = [item]"
proof -
  have "item \<in> set (filter (\<lambda>e. get_or (item_filename e) [] = get_or (item_filename item) []) catalog)"
    by (simp only: unique) simp
  then have "item \<in> set catalog" by simp
  then have found: "find_nzb_filename pf catalog
      (get_guid_from_filename pf (get_or (item_filename item) [])) =
      Some (get_or (item_filename item) [])"
    using no_collision by (rule find_nzb_filename_first)
  with nonempty unique show ?thesis
    by (simp add: py_not_def)
qed

theorem identifier_round_trip_witness:
  "find_nzb_filename example_platform [ubuntu, bunny, sintel] ''f57d2be9e8aed67f33c66116b8e55271'' =
     Some ''big.buck.bunny.nzb'' \<and>
   get_guid_from_filename example_platform ''big.buck.bunny.nzb'' = ''f57d2be9e8aed67f33c66116b8e55271'' \<and>
   filter (\<lambda>e. Some (get_or (item_filename e) []) =
       find_nzb_filename example_platform [ubuntu, bunny, sintel]
         ''f57d2be9e8aed67f33c66116b8e55271'') [ubuntu, bunny, sintel] = [bunny]"
proof -
  have fn: "get_or (item_filename ubuntu) [] = ''ubuntu-desktop.nzb''"
    "get_or (item_filename bunny) [] = ''big.buck.bunny.nzb''"
    "get_or (item_filename sintel) [] = ''sintel.nzb''"
    by (simp_all add: ubuntu_def bunny_def sintel_def get_or_def)
  have guid: "get_guid_from_filename example_platform ''ubuntu-desktop.nzb'' = ''a69f8063f54fe02db3468a161ef5b2c9''"
    "get_guid_from_filename example_platform ''big.buck.bunny.nzb'' = ''f57d2be9e8aed67f33c66116b8e55271''"
    "get_guid_from_filename example_platform ''sintel.nzb'' = ''3b3dfcd38eece6147afc684ed720d049''"
    by (simp_all add: get_guid_from_filename_def example_platform_def example_md5_def get_or_def)
  have "filter (\<lambda>e. get_or (item_filename e) [] = get_or (item_filename bunny) [])
      [ubuntu, bunny, sintel] = [bunny]"
    by (simp add: fn)
  moreover have "get_or (item_filename bunny) [] \<noteq> []"
    by (simp add: fn)
  moreover have "\<forall>other \<in> set [ubuntu, bunny, sintel].
      get_guid_from_filename example_platform (get_or (item_filename other) []) =
        get_guid_from_filename example_platform (get_or (item_filename bunny) []) \<longrightarrow>
      get_or (item_filename other) [] = get_or (item_filename bunny) []"
    by (simp add: fn guid)
  ultimately show ?thesis
    using identifier_round_trip [of bunny "[ubuntu, bunny, sintel]" example_platform]
    by (simp add: fn guid)
qed

text \<open>An entry without a file name (the file name is then the empty string) is the only
  entry of its catalog, and a request for the identifier of its file name is answered
  with \<^verbatim>\<open>not found\<close>.\<close>

theorem identifier_round_trip_counterexample:
  "nameless \<in> set [nameless] \<and>
   filter (\<lambda>e. get_or (item_filename e) [] = get_or (item_filename nameless) []) [nameless] = [nameless] \<and>
   get_guid_from_filename example_platform (get_or (item_filename nameless) []) =
     ''d41d8cd98f00b204e9800998ecf8427e'' \<and>
   handle_get example_platform (example_config\<lparr>nzbs_data := [nameless]\<rparr>)
     [''id'' \<mapsto> ''d41d8cd98f00b204e9800998ecf8427e''] =
   XmlResponse (Element ''error''
     [(''code'', ''300''),
      (''description'', ''NZB with ID d41d8cd98f00b204e9800998ecf8427e not found'')] [] [])"
  by (simp add: nameless_def get_or_def get_guid_from_filename_def example_platform_def
      example_md5_def handle_get_def error_response_def py_str_300 py_not_def)

text \<open>
  Claim C7. The answers of \<^verbatim>\<open>handle_get\<close>:
  \<^item> \<^verbatim>\<open>id\<close> absent or empty: code 200, \<^verbatim>\<open>No NZB ID specified\<close>;
  \<^item> a non-empty \<^verbatim>\<open>id\<close> that is the identifier of no entry: code 300,
    \<^verbatim>\<open>NZB with ID {id} not found\<close>;
  \<^item> a non-empty \<^verbatim>\<open>id\<close> whose first entry has an empty file name: the same answer;
  \<^item> a non-empty \<^verbatim>\<open>id\<close> whose first entry has the non-empty file name \<open>fname\<close>, with no
    file of that name in the directory: code 300, \<^verbatim>\<open>NZB file {filename} not found on disk\<close>;
  \<^item> the file is there and reading or sending it raises an exception with text \<open>e\<close>:
    code 900, \<^verbatim>\<open>Error reading NZB file: \<close> followed by \<open>e\<close>;
  \<^item> otherwise the file is sent as an attachment of type \<^verbatim>\<open>application/x-nzb\<close> under
    its own name.
  In every case the answer is the file or one error document of code 200, 300 or 900.
\<close>

theorem handle_get_outcomes:
  "(a ''id'' = None \<or> a ''id'' = Some [] \<longrightarrow>
      handle_get pf cfg a =
        XmlResponse (Element ''error''
          [(''code'', ''200''), (''description'', ''No NZB ID specified'')] [] [])) \<and>
   (\<forall>nzb_id. a ''id'' = Some nzb_id \<and> nzb_id \<noteq> [] \<and>
      (\<forall>item \<in> set (nzbs_data cfg).
         get_guid_from_filename pf (get_or (item_filename item) []) \<noteq> nzb_id) \<longrightarrow>
      handle_get pf cfg a =
        XmlResponse (Element ''error''
          [(''code'', ''300''),
           (''description'', ''NZB with ID '' @ nzb_id @ '' not found'')] [] [])) \<and>
   (\<forall>nzb_id. a ''id'' = Some nzb_id \<and> nzb_id \<noteq> [] \<and>
      find_nzb_filename pf (nzbs_data cfg) nzb_id = Some [] \<longrightarrow>
      handle_get pf cfg a =
        XmlResponse (Element ''error''
          [(''code'', ''300''),
           (''description'', ''NZB with ID '' @ nzb_id @ '' not found'')] [] [])) \<and>
   (\<forall>nzb_id fname. a ''id'' = Some nzb_id \<and> nzb_id \<noteq> [] \<and>
      find_nzb_filename pf (nzbs_data cfg) nzb_id = Some fname \<and> fname \<noteq> [] \<and>
      \<not> os_path_isfile pf (os_path_join (nzb_path cfg) fname) \<longrightarrow>
      handle_get pf cfg a =
        XmlResponse (Element ''error''
          [(''code'', ''300''),
           (''description'', ''NZB file '' @ fname @ '' not found on disk'')] [] [])) \<and>
   (\<forall>nzb_id fname e. a ''id'' = Some nzb_id \<and> nzb_id \<noteq> [] \<and>
      find_nzb_filename pf (nzbs_data cfg) nzb_id = Some fname \<and> fname \<noteq> [] \<and>
      os_path_isfile pf (os_path_join (nzb_path cfg) fname) \<and>
      (open_read pf (os_path_join (nzb_path cfg) fname) = Inl e \<or>
       (\<exists>nzb_content. open_read pf (os_path_join (nzb_path cfg) fname) = Inr nzb_content) \<and>
         send_file pf (os_path_join (nzb_path cfg) fname) = Some e) \<longrightarrow>
      handle_get pf cfg a =
        XmlResponse (Element ''error''
          [(''code'', ''900''),
           (''description'', ''Error reading NZB file: '' @ e)] [] [])) \<and>
   (\<forall>nzb_id fname nzb_content. a ''id'' = Some nzb_id \<and> nzb_id \<noteq> [] \<and>
      find_nzb_filename pf (nzbs_data cfg) nzb_id = Some fname \<and> fname \<noteq> [] \<and>
      os_path_isfile pf (os_path_join (nzb_path cfg) fname) \<and>
      open_read pf (os_path_join (nzb_path cfg) fname) = Inr nzb_content \<and>
      send_file pf (os_path_join (nzb_path cfg) fname) = None \<longrightarrow>
      handle_get pf cfg a =
        SendFile (os_path_join (nzb_path cfg) fname) fname ''application/x-nzb'') \<and>
   ((\<exists>path fname. handle_get pf cfg a = SendFile path fname ''application/x-nzb'') \<or>
    (\<exists>code message. code \<in> {''200'', ''300'', ''900''} \<and>
       handle_get pf cfg a =
         XmlResponse (Element ''error'' [(''code'', code), (''description'', message)] [] [])))"
proof (intro conjI allI impI)
  assume "a ''id'' = None \<or> a ''id'' = Some []"
  then show "handle_get pf cfg a =
        XmlResponse (Element ''error''
          [(''code'', ''200''), (''description'', ''No NZB ID specified'')] [] [])"
    by (auto simp: handle_get_def get_or_def error_response_def py_str_200)
next
  fix nzb_id
  assume h: "a ''id'' = Some nzb_id \<and> nzb_id \<noteq> [] \<and>
      (\<forall>item \<in> set (nzbs_data cfg).
         get_guid_from_filename pf (get_or (item_filename item) []) \<noteq> nzb_id)"
  then have "find_nzb_filename pf (nzbs_data cfg) nzb_id = None"
    by (simp add: find_nzb_filename_None)
  with h show "handle_get pf cfg a =
        XmlResponse (Element ''error''
          [(''code'', ''300''),
           (''description'', ''NZB with ID '' @ nzb_id @ '' not found'')] [] [])"
    by (simp add: handle_get_def get_or_def error_response_def py_str_300)
next
  fix nzb_id
  assume "a ''id'' = Some nzb_id \<and> nzb_id \<noteq> [] \<and>
      find_nzb_filename pf (nzbs_data cfg) nzb_id = Some []"
  then show "handle_get pf cfg a =
        XmlResponse (Element ''error''
          [(''code'', ''300''),
           (''description'', ''NZB with ID '' @ nzb_id @ '' not found'')] [] [])"
    by (simp add: handle_get_def get_or_def error_response_def py_str_300 py_not_def)
next
  fix nzb_id fname
  assume "a ''id'' = Some nzb_id \<and> nzb_id \<noteq> [] \<and>
      find_nzb_filename pf (nzbs_data cfg) nzb_id = Some fname \<and> fname \<noteq> [] \<and>
      \<not> os_path_isfile pf (os_path_join (nzb_path cfg) fname)"
  then show "handle_get pf cfg a =
        XmlResponse (Element ''error''
          [(''code'', ''300''),
           (''description'', ''NZB file '' @ fname @ '' not found on disk'')] [] [])"
    by (simp add: handle_get_def get_or_def error_response_def py_str_300 py_not_def)
next
  fix nzb_id fname e
  assume "a ''id'' = Some nzb_id \<and> nzb_id \<noteq> [] \<and>
      find_nzb_filename pf (nzbs_data cfg) nzb_id = Some fname \<and> fname \<noteq> [] \<and>
      os_path_isfile pf (os_path_join (nzb_path cfg) fname) \<and>
      (open_read pf (os_path_join (nzb_path cfg) fname) = Inl e \<or>
       (\<exists>nzb_content. open_read pf (os_path_join (nzb_path cfg) fname) = Inr nzb_content) \<and>
         send_file pf (os_path_join (nzb_path cfg) fname) = Some e)"
  then show "handle_get pf cfg a =
        XmlResponse (Element ''error''
          [(''code'', ''900''),
           (''description'', ''Error reading NZB file: '' @ e)] [] [])"
    by (auto simp: handle_get_def get_or_def error_response_def py_str_900 py_not_def)
next
  fix nzb_id fname nzb_content
  assume "a ''id'' = Some nzb_id \<and> nzb_id \<noteq> [] \<and>
      find_nzb_filename pf (nzbs_data cfg) nzb_id = Some fname \<and> fname \<noteq> [] \<and>
      os_path_isfile pf (os_path_join (nzb_path cfg) fname) \<and>
      open_read pf (os_path_join (nzb_path cfg) fname) = Inr nzb_content \<and>
      send_file pf (os_path_join (nzb_path cfg) fname) = None"
  then show "handle_get pf cfg a =
        SendFile (os_path_join (nzb_path cfg) fname) fname ''application/x-nzb''"
    by (simp add: handle_get_def get_or_def py_not_def)
next
  show "(\<exists>path fname. handle_get pf cfg a = SendFile path fname ''application/x-nzb'') \<or>
    (\<exists>code message. code \<in> {''200'', ''300'', ''900''} \<and>
       handle_get pf cfg a =
         XmlResponse (Element ''error'' [(''code'', code), (''description'', message)] [] []))"
    by (simp add: handle_get_def error_response_def py_str_200 py_str_300 py_str_900 Let_def
        split: option.split sum.split)
qed

theorem handle_get_outcomes_witness:
  "handle_get example_platform example_config [''t'' \<mapsto> ''get''] =
     XmlResponse (Element ''error''
       [(''code'', ''200''), (''description'', ''No NZB ID specified'')] [] []) \<and>
   handle_get example_platform example_config [''id'' \<mapsto> ''0123''] =
     XmlResponse (Element ''error''
       [(''code'', ''300''), (''description'', ''NZB with ID 0123 not found'')] [] []) \<and>
   handle_get example_platform example_config [''id'' \<mapsto> ''f57d2be9e8aed67f33c66116b8e55271''] =
     XmlResponse (Element ''error''
       [(''code'', ''300''),
        (''description'', ''NZB file big.buck.bunny.nzb not found on disk'')] [] []) \<and>
   handle_get example_platform example_config [''id'' \<mapsto> ''3b3dfcd38eece6147afc684ed720d049''] =
     XmlResponse (Element ''error''
       [(''code'', ''900''),
        (''description'', ''Error reading NZB file: [Errno 13] Permission denied'')] [] []) \<and>
   handle_get example_platform example_config [''id'' \<mapsto> ''a69f8063f54fe02db3468a161ef5b2c9''] =
     SendFile ''/srv/nzb/ubuntu-desktop.nzb'' ''ubuntu-desktop.nzb'' ''application/x-nzb''"
proof -
  have cfg: "nzbs_data example_config = [ubuntu, bunny, sintel]" "nzb_path example_config = ''/srv/nzb''"
    by (simp_all add: example_config_def)
  have none: "\<forall>item \<in> set (nzbs_data example_config).
      get_guid_from_filename example_platform (get_or (item_filename item) []) \<noteq> ''0123''"
    using example_lookup(4) by (simp only: cfg find_nzb_filename_None)
  have fs: "\<not> os_path_isfile example_platform ''/srv/nzb/big.buck.bunny.nzb''"
    "os_path_isfile example_platform ''/srv/nzb/sintel.nzb''"
    "os_path_isfile example_platform ''/srv/nzb/ubuntu-desktop.nzb''"
    "open_read example_platform ''/srv/nzb/sintel.nzb'' = Inl ''[Errno 13] Permission denied''"
    "open_read example_platform ''/srv/nzb/ubuntu-desktop.nzb'' = Inr ''<nzb/>''"
    "send_file example_platform ''/srv/nzb/ubuntu-desktop.nzb'' = None"
    by (simp_all add: example_platform_def)
  show ?thesis
    using none [unfolded cfg]
      handle_get_outcomes [of "[''t'' \<mapsto> ''get'']" example_platform example_config]
      handle_get_outcomes [of "[''id'' \<mapsto> ''0123'']" example_platform example_config]
      handle_get_outcomes [of "[''id'' \<mapsto> ''f57d2be9e8aed67f33c66116b8e55271'']"
        example_platform example_config]
      handle_get_outcomes [of "[''id'' \<mapsto> ''3b3dfcd38eece6147afc684ed720d049'']"
        example_platform example_config]
      handle_get_outcomes [of "[''id'' \<mapsto> ''a69f8063f54fe02db3468a161ef5b2c9'']"
        example_platform example_config]
    by (simp add: cfg example_lookup example_paths fs del: find_nzb_filename.simps)
qed

text \<open>Two requests: an \<^verbatim>\<open>id\<close> that is present and empty, on an empty catalog, is
  answered with code 200; the identifier of an entry without a file name, whose path is
  no file, is answered with \<^verbatim>\<open>NZB with ID ... not found\<close>.\<close>

theorem handle_get_counterexample:
  "handle_get example_platform (example_config\<lparr>nzbs_data := []\<rparr>) [''id'' \<mapsto> []] =
     XmlResponse (Element ''error''
       [(''code'', ''200''), (''description'', ''No NZB ID specified'')] [] []) \<and>
   get_guid_from_filename example_platform (get_or (item_filename nameless) []) =
     ''d41d8cd98f00b204e9800998ecf8427e'' \<and>
   \<not> os_path_isfile example_platform
     (os_path_join (nzb_path example_config) (get_or (item_filename nameless) [])) \<and>
   handle_get example_platform (example_config\<lparr>nzbs_data := [ubuntu, nameless]\<rparr>)
     [''id'' \<mapsto> ''d41d8cd98f00b204e9800998ecf8427e''] =
   XmlResponse (Element ''error''
     [(''code'', ''300''),
      (''description'', ''NZB with ID d41d8cd98f00b204e9800998ecf8427e not found'')] [] [])"
  by (simp add: nameless_def ubuntu_def get_or_def get_guid_from_filename_def example_platform_def
      example_md5_def handle_get_def error_response_def py_str_200 py_str_300 py_not_def
      example_config_def os_path_join_def)

subsection \<open>Category names\<close>

lemma py_int_examples:
  "py_int ''2000'' = Some 2000" "py_int ''2010'' = Some 2010" "py_int ''2040'' = Some 2040"
  "py_int ''4000'' = Some 4000" "py_int ''4020'' = Some 4020"
  "py_int ''0'' = Some 0" "py_int ''1'' = Some 1" "py_int ''3'' = Some 3" "py_int ''5'' = Some 5"
  "py_int ''20'' = Some 20"
  by (simp_all add: py_int_def int_strip_def int_isspace_def py_int_unsigned_def is_digit_def
      digit_val_def)

lemma py_str_examples:
  "py_str 2000 = ''2000''" "py_str 4000 = ''4000''" "py_str 0 = ''0''" "py_str 1 = ''1''"
  "py_str 3 = ''3''" "py_str 5 = ''5''" "py_str 10 = ''10''" "py_str 20 = ''20''"
  by (simp_all add: py_str_def nat_digits.simps)

lemma child_parents_Inl:
  "child_parents cats = Inl e \<longleftrightarrow> e = ValueError \<and> (\<exists>c \<in> set cats. py_int c = None)"
  by (induction cats) (auto split: option.splits sum.splits)

lemma child_parents_Inr:
  "child_parents cats = Inr ps \<Longrightarrow>
   c \<in> set ps \<longleftrightarrow>
     (\<exists>i \<in> set cats. \<exists>v. py_int i = Some v \<and> v mod 1000 \<noteq> 0 \<and> c = py_str (1000 * (v div 1000)))"
proof (induction cats arbitrary: ps)
  case Nil
  then show ?case by auto
next
  case (Cons i rest)
  from Cons.prems obtain v ps' where v: "py_int i = Some v" and ps': "child_parents rest = Inr ps'"
    and ps: "ps = (if v mod 1000 > 0 then py_str (1000 * (v div 1000)) # ps' else ps')"
    by (auto simp: py_divmod_def split: option.splits sum.splits)
  have pos: "v mod 1000 > 0 \<longleftrightarrow> v mod 1000 \<noteq> 0"
    using pos_mod_sign [of 1000 v] by auto
  show ?case
  proof (cases "v mod 1000 = 0")
    case True
    with ps have "ps = ps'" by simp
    with Cons.IH [OF ps'] v True show ?thesis by auto
  next
    case False
    with ps pos have "ps = py_str (1000 * (v div 1000)) # ps'" by simp
    with Cons.IH [OF ps'] v False show ?thesis by auto
  qed
qed

lemma get_named_categories_eq:
  assumes "\<forall>c \<in> set cats. py_int c \<noteq> None"
  shows "get_named_categories cfg cats =
    Inr (map (get_category_name cfg)
      (filter (\<lambda>c. \<not> (\<exists>i \<in> set cats. \<exists>v. py_int i = Some v \<and> v mod 1000 \<noteq> 0 \<and>
                          c = py_str (1000 * (v div 1000)))) cats))"
proof -
  from assms have "\<not> (\<exists>e. child_parents cats = Inl e)"
    by (auto simp: child_parents_Inl)
  then obtain ps where ps: "child_parents cats = Inr ps"
    by (cases "child_parents cats") auto
  have "\<And>c. c \<notin> set ps \<longleftrightarrow> \<not> (\<exists>i \<in> set cats. \<exists>v. py_int i = Some v \<and> v mod 1000 \<noteq> 0 \<and>
                          c = py_str (1000 * (v div 1000)))"
    using child_parents_Inr [OF ps] by simp
  with ps show ?thesis
    by (simp add: get_named_categories_def)
qed

text \<open>
  Claim C3. When \<^verbatim>\<open>int()\<close> accepts every id of the input, \<^verbatim>\<open>get_named_categories\<close>
  returns, in the order of the input, the display name of each id that is not (as a
  string) the decimal form of \<open>1000 * (v div 1000)\<close> for the value \<open>v\<close> of some id of
  the input with \<open>v mod 1000 \<noteq> 0\<close>. When \<^verbatim>\<open>int()\<close> rejects an id it raises
  \<^verbatim>\<open>ValueError\<close>. For \<^verbatim>\<open>["2000", "2010"]\<close> only the name of \<^verbatim>\<open>"2010"\<close> is returned,
  for \<^verbatim>\<open>["2000"]\<close> the name of \<^verbatim>\<open>"2000"\<close>. The display name of an id is its entry in
  the loaded map, and \<^verbatim>\<open>Category \<close> followed by the id when the map has none.
\<close>

theorem named_categories_suppress_implied_parents:
  "((\<forall>c \<in> set cats. py_int c \<noteq> None) \<longrightarrow>
      get_named_categories cfg cats =
        Inr (map (get_category_name cfg)
          (filter (\<lambda>c. \<not> (\<exists>i \<in> set cats. \<exists>v. py_int i = Some v \<and> v mod 1000 \<noteq> 0 \<and>
                              c = py_str (1000 * (v div 1000)))) cats))) \<and>
   ((\<exists>c \<in> set cats. py_int c = None) \<longrightarrow> get_named_categories cfg cats = Inl ValueError) \<and>
   get_named_categories cfg [''2000'', ''2010''] = Inr [get_category_name cfg ''2010''] \<and>
   get_named_categories cfg [''2000''] = Inr [get_category_name cfg ''2000''] \<and>
   (categories cfg category_id = None \<longrightarrow>
      get_category_name cfg category_id = ''Category '' @ category_id) \<and>
   (\<forall>name. categories cfg category_id = Some name \<longrightarrow> get_category_name cfg category_id = name)"
proof (intro conjI impI allI)
  assume "\<forall>c \<in> set cats. py_int c \<noteq> None"
  then show "get_named_categories cfg cats =
        Inr (map (get_category_name cfg)
          (filter (\<lambda>c. \<not> (\<exists>i \<in> set cats. \<exists>v. py_int i = Some v \<and> v mod 1000 \<noteq> 0 \<and>
                              c = py_str (1000 * (v div 1000)))) cats))"
    by (rule get_named_categories_eq)
next
  assume "\<exists>c \<in> set cats. py_int c = None"
  then have "child_parents cats = Inl ValueError"
    by (simp add: child_parents_Inl)
  then show "get_named_categories cfg cats = Inl ValueError"
    by (simp add: get_named_categories_def)
next
  show "get_named_categories cfg [''2000'', ''2010''] = Inr [get_category_name cfg ''2010'']"
    by (simp add: get_named_categories_def py_int_examples py_divmod_def py_str_examples)
next
  show "get_named_categories cfg [''2000''] = Inr [get_category_name cfg ''2000'']"
    by (simp add: get_named_categories_def py_int_examples py_divmod_def)
next
  assume "categories cfg category_id = None"
  then show "get_category_name cfg category_id = ''Category '' @ category_id"
    by (simp add: get_category_name_def)
next
  fix name
  assume "categories cfg category_id = Some name"
  then show "get_category_name cfg category_id = name"
    by (simp add: get_category_name_def)
qed

theorem named_categories_suppress_implied_parents_witness:
  "get_named_categories example_config [''4000'', ''4020'', ''2040''] =
     Inr [''Category 4020'', ''Movies/HD''] \<and>
   get_named_categories example_config [''2000'', ''2010''] = Inr [''Category 2010''] \<and>
   get_named_categories example_config [''2000''] = Inr [''Movies''] \<and>
   get_named_categories example_config [''2000'', ''20x0''] = Inl ValueError"
proof -
  have names: "categories example_config ''4020'' = None"
    "categories example_config ''2010'' = None"
    "categories example_config ''2040'' = Some ''Movies/HD''"
    "categories example_config ''2000'' = Some ''Movies''"
    by (simp_all add: example_config_def example_categories_def)
  have bad: "py_int ''20x0'' = None"
    by (simp add: py_int_def int_strip_def int_isspace_def py_int_unsigned_def is_digit_def
        digit_val_def)
  show ?thesis
    using named_categories_suppress_implied_parents [of "[''4000'', ''4020'', ''2040'']" example_config "''4020''"]
      named_categories_suppress_implied_parents [of "[''2000'', ''20x0'']" example_config "''2010''"]
      named_categories_suppress_implied_parents [of "[''2000'']" example_config "''2040''"]
      named_categories_suppress_implied_parents [of "[''2000'']" example_config "''2000''"]
    by (simp add: names bad py_int_examples py_str_examples)
qed

text \<open>An id that is no integer literal: the resolver raises and returns no names.\<close>

theorem named_categories_counterexample:
  "get_named_categories example_config [''abc''] = Inl ValueError"
  by (simp add: get_named_categories_def py_int_def int_strip_def int_isspace_def
      py_int_unsigned_def is_digit_def)

subsection \<open>Search: the filters\<close>

lemma py_startswith_prefix: "py_startswith s p \<longleftrightarrow> prefix p s"
  by (induction s p rule: py_startswith.induct) auto

lemma py_in_str_sublist: "py_in_str sub s \<longleftrightarrow> sublist sub s"
  by (induction s) (auto simp: py_startswith_prefix sublist_Cons_right)

lemma item_matches_iff:
  "item_matches terms cat item \<longleftrightarrow>
     (\<forall>t \<in> set terms. sublist t (py_lower (get_or (item_title item) []))) \<and>
     (cat = [] \<or> (\<exists>c \<in> set (categories_list item). c \<in> set (py_split_sep CHR '','' cat)))"
  by (auto simp: item_matches_def Let_def list_all_iff list_ex_iff py_in_str_sublist)

lemma query_terms_Nil: "query_terms [] = []"
  by (simp add: query_terms_def)

lemma query_terms_eq:
  "query_terms query =
     map py_lower (filter (\<lambda>t. t \<noteq> []) (py_split (clean_query query)))"
  by (simp add: query_terms_def py_split_def clean_query_def)

lemma py_split_from_tokens:
  "t \<in> set (py_split_from cur s) \<Longrightarrow>
   t \<noteq> [] \<and> (\<forall>c \<in> set t. c \<in> set cur \<or> (c \<in> set s \<and> \<not> py_isspace c))"
proof (induction cur s arbitrary: t rule: py_split_from.induct)
  case (1 cur)
  then show ?case by (auto split: if_splits)
next
  case (2 cur c cs)
  show ?case
  proof (cases "py_isspace c")
    case True
    show ?thesis
    proof (cases "cur = []")
      case cur: True
      with True "2.prems" have "t \<in> set (py_split_from [] cs)" by simp
      from "2.IH"(1) [OF True cur this] show ?thesis by auto
    next
      case cur: False
      with True "2.prems" have "t = cur \<or> t \<in> set (py_split_from [] cs)" by simp
      then show ?thesis
      proof
        assume "t = cur"
        with cur show ?thesis by simp
      next
        assume "t \<in> set (py_split_from [] cs)"
        from "2.IH"(2) [OF True cur this] show ?thesis by auto
      qed
    qed
  next
    case False
    with "2.prems" have "t \<in> set (py_split_from (cur @ [c]) cs)" by simp
    from "2.IH"(3) [OF False this] False show ?thesis by auto
  qed
qed

lemma py_split_tokens:
  "t \<in> set (py_split s) \<Longrightarrow> t \<noteq> [] \<and> (\<forall>c \<in> set t. c \<in> set s \<and> \<not> py_isspace c)"
  using py_split_from_tokens [of t "[]" s] by (simp add: py_split_def)

lemma py_lower_char_space: "py_isspace (py_lower_char c) \<Longrightarrow> py_isspace c"
  by (auto simp: py_lower_char_def py_isspace_def split: option.splits if_splits)

lemma query_terms_tokens:
  assumes "t \<in> set (query_terms query)"
  shows "t \<noteq> [] \<and> (\<forall>c \<in> set t. \<not> py_isspace c)"
proof -
  from assms obtain u where u: "u \<in> set (py_split (clean_query query))" and t: "t = py_lower u"
    by (auto simp: query_terms_eq)
  from py_split_tokens [OF u] have "u \<noteq> []" and "\<forall>c \<in> set u. \<not> py_isspace c"
    by auto
  with t show ?thesis
    using py_lower_char_space by (auto simp: py_lower_def)
qed

lemma search_results_text:
  "search_results cfg query cat =
     filter (\<lambda>item. \<forall>t \<in> set (query_terms query).
                sublist t (py_lower (get_or (item_title item) [])))
       (search_results cfg [] cat)"
  unfolding search_results_def query_terms_Nil filter_filter
  by (rule filter_cong) (auto simp: item_matches_iff)

lemma search_results_cat:
  "search_results cfg query cat =
     filter (\<lambda>item. cat = [] \<or>
                (\<exists>c \<in> set (categories_list item). c \<in> set (py_split_sep CHR '','' cat)))
       (search_results cfg query [])"
  unfolding search_results_def filter_filter
  by (rule filter_cong) (auto simp: item_matches_iff)

lemma search_results_all: "search_results cfg [] [] = nzbs_data cfg"
  by (simp add: search_results_def item_matches_iff query_terms_Nil)

lemma handle_search_absent_q:
  assumes "a ''q'' = None"
  shows "handle_search pf cfg (a(''q'' \<mapsto> [])) = handle_search pf cfg a"
proof -
  have "int_arg (a(''q'' \<mapsto> [])) ''limit'' 100 = int_arg a ''limit'' 100"
    and "int_arg (a(''q'' \<mapsto> [])) ''offset'' 0 = int_arg a ''offset'' 0"
    by (simp_all add: int_arg_def)
  moreover have "get_or ((a(''q'' \<mapsto> [])) ''q'') [] = get_or (a ''q'') []"
    and "get_or ((a(''q'' \<mapsto> [])) ''cat'') [] = get_or (a ''cat'') []"
    using assms by (simp_all add: get_or_def)
  ultimately show ?thesis
    by (simp only: handle_search_def)
qed

lemma handle_search_absent_cat:
  assumes "a ''cat'' = None"
  shows "handle_search pf cfg (a(''cat'' \<mapsto> [])) = handle_search pf cfg a"
proof -
  have "int_arg (a(''cat'' \<mapsto> [])) ''limit'' 100 = int_arg a ''limit'' 100"
    and "int_arg (a(''cat'' \<mapsto> [])) ''offset'' 0 = int_arg a ''offset'' 0"
    by (simp_all add: int_arg_def)
  moreover have "get_or ((a(''cat'' \<mapsto> [])) ''q'') [] = get_or (a ''q'') []"
    and "get_or ((a(''cat'' \<mapsto> [])) ''cat'') [] = get_or (a ''cat'') []"
    using assms by (simp_all add: get_or_def)
  ultimately show ?thesis
    by (simp only: handle_search_def)
qed

lemma example_titles:
  "py_lower (get_or (item_title ubuntu) []) = ''ubuntu 24.04 desktop''"
  "py_lower (get_or (item_title bunny) []) = ''big.buck.bunny.2008.1080p''"
  "py_lower (get_or (item_title sintel) []) = ''sintel 2010 buck''"
  by (simp_all add: ubuntu_def bunny_def sintel_def get_or_def py_lower_def py_lower_char_def)

lemma example_terms: "query_terms ''Buck, BUNNY!'' = [''buck'', ''bunny'']"
  by (simp add: query_terms_def clean_query_def punctuation_def py_split_def py_isspace_def
      py_lower_def py_lower_char_def)

lemma example_text_search:
  "search_results example_config ''Buck, BUNNY!'' [] = [bunny]"
  by (simp add: search_results_def example_terms item_matches_def example_titles
      example_config_def)

lemma example_cats:
  "categories_list ubuntu = [''4000'', ''4020'']"
  "categories_list bunny = [''2040'']"
  "categories_list sintel = [''2000'']"
  by (simp_all add: categories_list_def ubuntu_def bunny_def sintel_def)

lemma example_split:
  "py_split_sep CHR '','' ''2040,4000'' = [''2040'', ''4000'']"
  "py_split_sep CHR '','' ''2000'' = [''2000'']"
  by (simp_all add: py_split_sep_def)

text \<open>
  Claim C2. The query terms are the white-space separated words of the query in which
  each of the characters \<^verbatim>\<open>, . ! ? ; : " ' -\<close> has been replaced by a space, without the
  empty ones, in lower case; no term is empty or contains white space. An entry is
  among the results iff it passes the category filter and every term occurs in its
  lower-cased title as a contiguous run (the title being \<open>before @ t @ after\<close>); with no
  category filter the results are the entries of the catalog with that property. The
  empty query has no terms and filters nothing, and a request without \<^verbatim>\<open>q\<close> is answered
  like one with an empty \<^verbatim>\<open>q\<close>.
\<close>

theorem text_filter:
  "query_terms query =
     map py_lower (filter (\<lambda>t. t \<noteq> [])
       (py_split (map (\<lambda>c. if c \<in> {CHR '','', CHR ''.'', CHR ''!'', CHR ''?'', CHR '';'', CHR '':'',
                                     CHR 0x22, CHR 0x27, CHR ''-''}
                          then CHR '' '' else c) query))) \<and>
   (\<forall>t \<in> set (query_terms query). t \<noteq> [] \<and> (\<forall>c \<in> set t. \<not> py_isspace c)) \<and>
   search_results cfg query [] =
     filter (\<lambda>item. \<forall>t \<in> set (query_terms query).
                \<exists>before after. py_lower (get_or (item_title item) []) = before @ t @ after)
       (nzbs_data cfg) \<and>
   search_results cfg query cat =
     filter (\<lambda>item. \<forall>t \<in> set (query_terms query).
                \<exists>before after. py_lower (get_or (item_title item) []) = before @ t @ after)
       (search_results cfg [] cat) \<and>
   query_terms [] = [] \<and>
   search_results cfg [] [] = nzbs_data cfg \<and>
   (a ''q'' = None \<longrightarrow> handle_search pf cfg a = handle_search pf cfg (a(''q'' \<mapsto> [])))"
proof (intro conjI impI)
  have "(\<lambda>c. if c \<in> set punctuation then CHR '' '' else c) =
      (\<lambda>c. if c \<in> {CHR '','', CHR ''.'', CHR ''!'', CHR ''?'', CHR '';'', CHR '':'',
                      CHR 0x22, CHR 0x27, CHR ''-''}
            then CHR '' '' else c)"
    by (rule ext) (auto simp: punctuation_def)
  then show "query_terms query =
     map py_lower (filter (\<lambda>t. t \<noteq> [])
       (py_split (map (\<lambda>c. if c \<in> {CHR '','', CHR ''.'', CHR ''!'', CHR ''?'', CHR '';'', CHR '':'',
                                     CHR 0x22, CHR 0x27, CHR ''-''}
                          then CHR '' '' else c) query)))"
    by (simp only: query_terms_eq clean_query_def)
next
  show "\<forall>t \<in> set (query_terms query). t \<noteq> [] \<and> (\<forall>c \<in> set t. \<not> py_isspace c)"
    using query_terms_tokens by blast
next
  show "search_results cfg query [] =
     filter (\<lambda>item. \<forall>t \<in> set (query_terms query).
                \<exists>before after. py_lower (get_or (item_title item) []) = before @ t @ after)
       (nzbs_data cfg)"
    using search_results_text [of cfg query "[]"]
    by (simp only: search_results_all sublist_def)
next
  show "search_results cfg query cat =
     filter (\<lambda>item. \<forall>t \<in> set (query_terms query).
                \<exists>before after. py_lower (get_or (item_title item) []) = before @ t @ after)
       (search_results cfg [] cat)"
    using search_results_text [of cfg query cat]
    by (simp only: sublist_def)
next
  show "query_terms [] = []"
    by (rule query_terms_Nil)
next
  show "search_results cfg [] [] = nzbs_data cfg"
    by (rule search_results_all)
next
  assume "a ''q'' = None"
  then show "handle_search pf cfg a = handle_search pf cfg (a(''q'' \<mapsto> []))"
    by (simp only: handle_search_absent_q)
qed

theorem text_filter_witness:
  "query_terms ''Buck, BUNNY!'' = [''buck'', ''bunny''] \<and>
   search_results example_config ''Buck, BUNNY!'' [] = [bunny] \<and>
   filter (\<lambda>item. \<forall>t \<in> set [''buck'', ''bunny''].
              \<exists>before after. py_lower (get_or (item_title item) []) = before @ t @ after)
     [ubuntu, bunny, sintel] = [bunny] \<and>
   handle_search example_platform example_config [''t'' \<mapsto> ''search''] =
     handle_search example_platform example_config [''t'' \<mapsto> ''search'', ''q'' \<mapsto> []]"
proof -
  have data: "nzbs_data example_config = [ubuntu, bunny, sintel]"
    by (simp add: example_config_def)
  note inst = text_filter [of "''Buck, BUNNY!''" example_config "[]" "[''t'' \<mapsto> ''search'']"
      example_platform]
  from inst have "search_results example_config ''Buck, BUNNY!'' [] =
     filter (\<lambda>item. \<forall>t \<in> set (query_terms ''Buck, BUNNY!'').
                \<exists>before after. py_lower (get_or (item_title item) []) = before @ t @ after)
       (nzbs_data example_config)"
    by blast
  then have "filter (\<lambda>item. \<forall>t \<in> set [''buck'', ''bunny''].
              \<exists>before after. py_lower (get_or (item_title item) []) = before @ t @ after)
     [ubuntu, bunny, sintel] = [bunny]"
    by (simp only: example_terms example_text_search data)
  moreover from inst have "handle_search example_platform example_config [''t'' \<mapsto> ''search''] =
     handle_search example_platform example_config [''t'' \<mapsto> ''search'', ''q'' \<mapsto> []]"
    by simp
  ultimately show ?thesis
    by (simp only: example_terms example_text_search)
qed

text \<open>
  Claim C9. The results are a subsequence of the catalog: its entries in their order,
  some left out. With a non-empty \<^verbatim>\<open>cat\<close> the results are those entries passing the
  text filter that have at least one category id equal, as a string, to one of the
  fields of \<^verbatim>\<open>cat\<close> split at its commas. With an empty \<^verbatim>\<open>cat\<close> only the text filter
  applies, an empty query and an empty \<^verbatim>\<open>cat\<close> give the whole catalog, and a request
  without \<^verbatim>\<open>cat\<close> is answered like one with an empty \<^verbatim>\<open>cat\<close>.
\<close>

theorem category_filter:
  "subseq (search_results cfg query cat) (nzbs_data cfg) \<and>
   (cat \<noteq> [] \<longrightarrow>
      search_results cfg query cat =
        filter (\<lambda>item. \<exists>c \<in> set (categories_list item). c \<in> set (py_split_sep CHR '','' cat))
          (search_results cfg query [])) \<and>
   search_results cfg query [] =
     filter (\<lambda>item. \<forall>t \<in> set (query_terms query).
                sublist t (py_lower (get_or (item_title item) [])))
       (nzbs_data cfg) \<and>
   search_results cfg [] [] = nzbs_data cfg \<and>
   (a ''cat'' = None \<longrightarrow> handle_search pf cfg a = handle_search pf cfg (a(''cat'' \<mapsto> [])))"
proof (intro conjI impI)
  show "subseq (search_results cfg query cat) (nzbs_data cfg)"
    by (simp add: search_results_def)
next
  assume "cat \<noteq> []"
  with search_results_cat [of cfg query cat]
  show "search_results cfg query cat =
        filter (\<lambda>item. \<exists>c \<in> set (categories_list item). c \<in> set (py_split_sep CHR '','' cat))
          (search_results cfg query [])"
    by simp
next
  show "search_results cfg query [] =
     filter (\<lambda>item. \<forall>t \<in> set (query_terms query).
                sublist t (py_lower (get_or (item_title item) [])))
       (nzbs_data cfg)"
    using search_results_text [of cfg query "[]"]
    by (simp only: search_results_all)
next
  show "search_results cfg [] [] = nzbs_data cfg"
    by (rule search_results_all)
next
  assume "a ''cat'' = None"
  then show "handle_search pf cfg a = handle_search pf cfg (a(''cat'' \<mapsto> []))"
    by (simp only: handle_search_absent_cat)
qed

theorem category_filter_witness:
  "search_results example_config [] ''2040,4000'' = [ubuntu, bunny] \<and>
   search_results example_config [] ''2000'' = [sintel] \<and>
   subseq [ubuntu, bunny] [ubuntu, bunny, sintel] \<and>
   handle_search example_platform example_config [''t'' \<mapsto> ''search''] =
     handle_search example_platform example_config [''t'' \<mapsto> ''search'', ''cat'' \<mapsto> []]"
proof -
  have data: "nzbs_data example_config = [ubuntu, bunny, sintel]"
    by (simp add: example_config_def)
  have all: "search_results example_config [] [] = [ubuntu, bunny, sintel]"
    by (simp only: search_results_all data)
  note inst = category_filter [of example_config "[]" "''2040,4000''" "[''t'' \<mapsto> ''search'']"
      example_platform]
  from inst have "search_results example_config [] ''2040,4000'' =
      filter (\<lambda>item. \<exists>c \<in> set (categories_list item). c \<in> set (py_split_sep CHR '','' ''2040,4000''))
        (search_results example_config [] [])"
    by simp
  then have one: "search_results example_config [] ''2040,4000'' = [ubuntu, bunny]"
    by (simp add: all example_cats example_split)
  from inst have sub: "subseq (search_results example_config [] ''2040,4000'') (nzbs_data example_config)"
    by blast
  from inst have absent: "handle_search example_platform example_config [''t'' \<mapsto> ''search''] =
     handle_search example_platform example_config [''t'' \<mapsto> ''search'', ''cat'' \<mapsto> []]"
    by simp
  from category_filter [of example_config "[]" "''2000''" "[''t'' \<mapsto> ''search'']"
      example_platform]
  have "search_results example_config [] ''2000'' =
      filter (\<lambda>item. \<exists>c \<in> set (categories_list item). c \<in> set (py_split_sep CHR '','' ''2000''))
        (search_results example_config [] [])"
    by simp
  then have two: "search_results example_config [] ''2000'' = [sintel]"
    by (simp add: all example_cats example_split)
  from sub have "subseq [ubuntu, bunny] [ubuntu, bunny, sintel]"
    by (simp only: one data)
  with one two absent show ?thesis
    by (simp only: simp_thms)
qed

subsection \<open>Search: pagination\<close>

lemma py_slice_nonneg:
  assumes "0 \<le> offset" and "0 \<le> limit"
  shows "py_slice xs offset (offset + limit) = take (nat limit) (drop (nat offset) xs)"
proof (cases "offset < int (length xs)")
  case True
  with assms have "nat (min (offset + limit) (int (length xs)) - offset) =
      min (nat limit) (length xs - nat offset)"
    by (auto simp: min_def)
  with True assms show ?thesis
    by (simp add: py_slice_def Let_def min_def take_all_iff)
next
  case False
  with assms show ?thesis
    by (simp add: py_slice_def Let_def min_def)
qed

lemma build_items_Inr:
  "build_items pf cfg xs = Inr items \<longleftrightarrow> map (build_item_xml pf cfg) xs = map Inr items"
proof (induction xs arbitrary: items)
  case Nil
  then show ?case by auto
next
  case (Cons x xs)
  show ?case
  proof (cases "build_item_xml pf cfg x")
    case (Inl e)
    then show ?thesis by (cases items) auto
  next
    case (Inr y)
    show ?thesis
    proof (cases "build_items pf cfg xs")
      case (Inl e)
      with Cons.IH have "\<And>ys. map (build_item_xml pf cfg) xs \<noteq> map Inr ys" by auto
      with Inl Inr show ?thesis by (cases items) auto
    next
      case inr: (Inr ys)
      with Cons.IH have "map (build_item_xml pf cfg) xs = map Inr ys" by auto
      with inr Inr show ?thesis by (cases items) (auto simp: inj_map_eq_map)
    qed
  qed
qed

lemma episodes_results: "search_results episodes [] [] = nzbs_data episodes"
  by (simp add: search_results_def query_terms_def item_matches_def)

text \<open>
  Claim C4. Let \<^verbatim>\<open>limit\<close> and \<^verbatim>\<open>offset\<close> (100 and 0 when absent) be integers that are
  not negative, and \<open>results\<close> the matches of the request. Then \<^verbatim>\<open>handle_search\<close>
  renders exactly the entries \<open>take limit (drop offset results)\<close>, one \<^verbatim>\<open>item\<close> each in
  that order, and its document holds them after the \<^verbatim>\<open>response\<close> element, whose
  \<^verbatim>\<open>total\<close> is the number of all matches; an exception raised while an entry is
  rendered is the only other outcome. When \<^verbatim>\<open>offset\<close> is at least the number of
  matches the answer is the document without items, never an exception.
\<close>

theorem search_pagination:
  assumes "(case a ''limit'' of None \<Rightarrow> Some 100 | Some s \<Rightarrow> py_int s) = Some limit"
    and "(case a ''offset'' of None \<Rightarrow> Some 0 | Some s \<Rightarrow> py_int s) = Some offset"
    and "0 \<le> limit" and "0 \<le> offset"
    and "results = search_results cfg (get_or (a ''q'') []) (get_or (a ''cat'') [])"
  shows "handle_search pf cfg a =
      (case build_items pf cfg (take (nat limit) (drop (nat offset) results)) of
         Inl e \<Rightarrow> Inl e
       | Inr items \<Rightarrow> Inr (XmlResponse (search_document cfg offset (length results) items))) \<and>
    (\<forall>items. build_items pf cfg (take (nat limit) (drop (nat offset) results)) = Inr items \<longleftrightarrow>
       map (build_item_xml pf cfg) (take (nat limit) (drop (nat offset) results)) = map Inr items) \<and>
    (\<forall>items. \<exists>header.
       search_document cfg offset (length results) items =
         Element ''rss'' [(''version'', ''2.0'')] []
           [Element ''channel'' [] []
              (header @
               [Element ''{http://www.newznab.com/DTD/2010/feeds/attributes/}response''
                  [(''offset'', py_str offset), (''total'', py_str (int (length results)))] [] []] @
               items)]) \<and>
    (int (length results) \<le> offset \<longrightarrow>
       handle_search pf cfg a =
         Inr (XmlResponse (search_document cfg offset (length results) [])))"
proof (intro conjI allI impI)
  from assms(1,2) have args: "int_arg a ''limit'' 100 = Some limit" "int_arg a ''offset'' 0 = Some offset"
    by (simp_all add: int_arg_def)
  from assms(3,4) have slice: "py_slice results offset (offset + limit) =
      take (nat limit) (drop (nat offset) results)"
    by (simp add: py_slice_nonneg)
  show main: "handle_search pf cfg a =
      (case build_items pf cfg (take (nat limit) (drop (nat offset) results)) of
         Inl e \<Rightarrow> Inl e
       | Inr items \<Rightarrow> Inr (XmlResponse (search_document cfg offset (length results) items)))"
    using slice unfolding assms(5)
    by (simp add: handle_search_def args Let_def)
  assume "int (length results) \<le> offset"
  then have "drop (nat offset) results = []" by simp
  with main show "handle_search pf cfg a =
         Inr (XmlResponse (search_document cfg offset (length results) []))"
    by simp
next
  fix items
  show "build_items pf cfg (take (nat limit) (drop (nat offset) results)) = Inr items \<longleftrightarrow>
       map (build_item_xml pf cfg) (take (nat limit) (drop (nat offset) results)) = map Inr items"
    by (rule build_items_Inr)
next
  fix items
  show "\<exists>header.
       search_document cfg offset (length results) items =
         Element ''rss'' [(''version'', ''2.0'')] []
           [Element ''channel'' [] []
              (header @
               [Element ''{http://www.newznab.com/DTD/2010/feeds/attributes/}response''
                  [(''offset'', py_str offset), (''total'', py_str (int (length results)))] [] []] @
               items)]"
    unfolding search_document_def newznab_ns_def
    by (rule exI [of _ "[Element ''title'' [] ''Newznab Mock'' [],
            Element ''description'' [] ''Newznab Mock API Results'' [],
            Element ''link'' [] (external_url cfg) [],
            Element ''language'' [] ''en-gb'' [],
            Element ''webMaster'' []
              (''admin@'' @ py_replace (py_replace (external_url cfg) ''http://'' []) ''https://'' []) [],
            Element ''category'' [] ''NZB'' [],
            Element ''{http://www.w3.org/2005/Atom}link''
              [(''href'', external_url cfg @ ''/api''), (''rel'', ''self''),
               (''type'', ''application/rss+xml'')] [] []]"]) simp
qed

theorem search_pagination_witness:
  "length (search_results episodes [] []) = 10 \<and>
   handle_search example_platform episodes [''offset'' \<mapsto> ''20'', ''limit'' \<mapsto> ''5''] =
     Inr (XmlResponse (search_document episodes 20 10 [])) \<and>
   handle_search example_platform episodes [''offset'' \<mapsto> ''5'', ''limit'' \<mapsto> ''3''] =
     (case build_items example_platform episodes [episode ''5'', episode ''6'', episode ''7''] of
        Inl e \<Rightarrow> Inl e
      | Inr items \<Rightarrow> Inr (XmlResponse (search_document episodes 5 10 items)))"
proof -
  have len: "length (nzbs_data episodes) = 10"
    and data: "nzbs_data episodes =
      map (\<lambda>n. episode [n]) ''0123456789''"
    by (simp_all add: episodes_def)
  have slice: "take (nat 3) (drop (nat 5) (nzbs_data episodes)) =
      [episode ''5'', episode ''6'', episode ''7'']"
    by (simp add: data eval_nat_numeral)
  have beyond: "int (length (nzbs_data episodes)) \<le> 20"
    by (simp add: len)
  have far: "handle_search example_platform episodes [''offset'' \<mapsto> ''20'', ''limit'' \<mapsto> ''5''] =
      Inr (XmlResponse (search_document episodes 20 (length (nzbs_data episodes)) []))"
    using beyond
      search_pagination [of "[''offset'' \<mapsto> ''20'', ''limit'' \<mapsto> ''5'']" 5 20
        "nzbs_data episodes" episodes example_platform]
    by (simp add: py_int_examples get_or_def episodes_results del: build_items.simps(2))
  have near: "handle_search example_platform episodes [''offset'' \<mapsto> ''5'', ''limit'' \<mapsto> ''3''] =
      (case build_items example_platform episodes
              (take (nat 3) (drop (nat 5) (nzbs_data episodes))) of
         Inl e \<Rightarrow> Inl e
       | Inr items \<Rightarrow>
           Inr (XmlResponse (search_document episodes 5 (length (nzbs_data episodes)) items)))"
    using search_pagination [of "[''offset'' \<mapsto> ''5'', ''limit'' \<mapsto> ''3'']" 3 5
        "nzbs_data episodes" episodes example_platform]
    by (simp add: py_int_examples get_or_def episodes_results del: build_items.simps(2))
  from far near show ?thesis
    by (simp only: slice len episodes_results)
qed

end
